theory Spec2Isabelle
  imports Main "HOL-Library.Word" "HOL-Library.AList"
begin

section \<open>Data model of the delegate vote transaction\<close>

text \<open>
  The embedding follows \<^verbatim>\<open>src/tx/delegatetx.cpp\<close>: \<^verbatim>\<open>CDelegateVoteTx::CheckTx\<close> and
  \<^verbatim>\<open>CDelegateVoteTx::ExecuteTx\<close>. Everything those two functions call but do not define
  (the check macros, the caches behind \<^verbatim>\<open>CCacheWrapper\<close>, the methods of \<^verbatim>\<open>CAccount\<close>,
  the chain constants) is a field of one of the two records of collaborators below, so
  that the two functions are translated statement by statement.
\<close>

type_synonym uint64 = "64 word"
type_synonym uint256 = "256 word"
type_synonym CPubKey = "8 word list"
type_synonym CKeyID = "160 word"

text \<open>A registered id is made from a block height and a transaction index.\<close>

type_synonym CRegID = "int \<times> int"

text \<open>
  \<^verbatim>\<open>CUserID\<close> is a variant; the source asks for its \<^verbatim>\<open>type()\<close> and tells
  \<^verbatim>\<open>CPubKey\<close> and \<^verbatim>\<open>CRegID\<close> from every other alternative.
\<close>

datatype CUserID = UidPubKey CPubKey | UidRegID CRegID | UidOther

datatype VoteType = Stake | Unstake

record CCandidateVote =
  candidateVoteType :: VoteType
  candidateUid :: CUserID
  votedBcoins :: uint64

record CAccount =
  keyid :: CKeyID
  regid :: CRegID
  owner_pubkey :: CPubKey
  balances :: "string \<Rightarrow> uint64"
  received_votes :: uint64

record CDelegateVoteTx =
  nVersion :: int
  txUid :: CUserID
  llFees :: uint64
  valid_height :: int
  signature :: "8 word list"
  candidateVotes :: "CCandidateVote list"

text \<open>
  A receipt, from the spec's data model: the account key affected, the kind of effect
  and the amount. The batch of a transaction is stored under the transaction's hash.
\<close>

datatype EffectKind = FeeDebit | StakeCredit | StakeDebit

record CReceipt =
  receipt_account :: CKeyID
  receipt_kind :: EffectKind
  receipt_amount :: uint64

text \<open>An entry of a voter's vote list: the candidate's account key and the weight staked on it.\<close>

type_synonym CCandidateReceivedVote = "CKeyID \<times> uint64"

subsection \<open>Results\<close>

text \<open>
  Both functions return \<^verbatim>\<open>bool\<close> and report through \<^verbatim>\<open>CValidationState\<close>.
  \<^verbatim>\<open>state.DoS(level, ERRORMSG(..), code, reason)\<close> returns false and records the
  misbehaviour score, the reject code and the reason; a bare \<^verbatim>\<open>return ERRORMSG(..)\<close> or
  \<^verbatim>\<open>return false\<close> returns false and leaves the validation state as it was.
\<close>

datatype RejectCode = REJECT_INVALID | UPDATE_ACCOUNT_FAIL | WRITE_CANDIDATE_VOTES_FAIL

datatype rejection = DoS nat RejectCode string | NoDoS

datatype outcome = Accepted | Rejected rejection

datatype BalanceOpType = SUB_FREE

subsection \<open>Collaborators\<close>

text \<open>
  What the source uses and does not define, independent of the cache wrapper: the check
  macros \<^verbatim>\<open>IMPLEMENT_CHECK_TX_FEE\<close> and \<^verbatim>\<open>IMPLEMENT_CHECK_TX_SIGNATURE\<close> (\<open>None\<close>
  when the macro falls through, \<open>Some r\<close> when it returns with rejection \<open>r\<close>), the
  rejection of \<^verbatim>\<open>IMPLEMENT_CHECK_TX_REGID_OR_PUBKEY\<close>, the chain constants, the
  feature fork version of a height (the enumeration's values as integers), the methods
  of \<^verbatim>\<open>CPubKey\<close> and \<^verbatim>\<open>CAccount\<close>, and the transaction hash. The methods of
  \<^verbatim>\<open>CAccount\<close> that change the account return the changed account, or \<open>None\<close> when
  they return false.
\<close>

record Chain =
  CHECK_TX_FEE :: "int \<Rightarrow> CDelegateVoteTx \<Rightarrow> rejection option"
  CHECK_TX_SIGNATURE :: "CPubKey \<Rightarrow> CDelegateVoteTx \<Rightarrow> rejection option"
  uid_type_rejection :: rejection
  GetMaxVoteCandidateNum :: nat
  GetBaseCoinMaxMoney :: uint64
  GetFeatureForkVersion :: "int \<Rightarrow> int"
  MAJOR_VER_R2 :: int
  IsFullyValid :: "CPubKey \<Rightarrow> bool"
  GetKeyId :: "CPubKey \<Rightarrow> CKeyID"
  HaveOwnerPubKey :: "CAccount \<Rightarrow> bool"
  OperateBalance :: "CAccount \<Rightarrow> string \<Rightarrow> BalanceOpType \<Rightarrow> uint64 \<Rightarrow> CAccount option"
  StakeVoteBcoins :: "CAccount \<Rightarrow> VoteType \<Rightarrow> uint64 \<Rightarrow> CAccount option"
  GetHash :: "CDelegateVoteTx \<Rightarrow> uint256"

text \<open>
  The operations on the cache wrapper \<open>'cw\<close>. A read returns what it found and leaves
  the wrapper alone. A write returns the C++ \<^verbatim>\<open>bool\<close> and the wrapper it leaves behind,
  also when it returns false. \<^verbatim>\<open>GenerateRegID\<close> is given the validation state and the
  wrapper, so it returns its own rejection or the sender account it produced, and the
  wrapper. \<^verbatim>\<open>ProcessDelegateVotes\<close> is a method of the sender account that reads the
  account cache; it returns the account, the vote list and the receipts it produced,
  or \<open>None\<close> when it returns false.
\<close>

record 'cw Caches =
  GetAccount :: "'cw \<Rightarrow> CUserID \<Rightarrow> CAccount option"
  SaveAccount :: "'cw \<Rightarrow> CAccount \<Rightarrow> bool \<times> 'cw"
  GenerateRegID :: "CDelegateVoteTx \<Rightarrow> CAccount \<Rightarrow> 'cw \<Rightarrow> int \<Rightarrow> int \<Rightarrow> (rejection + CAccount) \<times> 'cw"
  GetCandidateVotes :: "'cw \<Rightarrow> CRegID \<Rightarrow> CCandidateReceivedVote list"
  SetCandidateVotes :: "'cw \<Rightarrow> CRegID \<Rightarrow> CCandidateReceivedVote list \<Rightarrow> bool \<times> 'cw"
  ProcessDelegateVotes :: "'cw \<Rightarrow> CAccount \<Rightarrow> CCandidateVote list \<Rightarrow> CCandidateReceivedVote list
      \<Rightarrow> int \<Rightarrow> CReceipt list \<Rightarrow> (CAccount \<times> CCandidateReceivedVote list \<times> CReceipt list) option"
  SetDelegateVotes :: "'cw \<Rightarrow> CRegID \<Rightarrow> uint64 \<Rightarrow> bool \<times> 'cw"
  EraseDelegateVotes :: "'cw \<Rightarrow> CRegID \<Rightarrow> uint64 \<Rightarrow> bool \<times> 'cw"
  SetTxReceipts :: "'cw \<Rightarrow> uint256 \<Rightarrow> CReceipt list \<Rightarrow> bool \<times> 'cw"

section \<open>CheckTx\<close>

text \<open>
  Modelled from the spec: the macro \<^verbatim>\<open>IMPLEMENT_CHECK_TX_REGID_OR_PUBKEY\<close> is not in
  the source file. By its name and by the spec (the identifier must be a public key or
  a registered id, no other identifier kind is accepted) it returns from the check
  unless the type is \<^verbatim>\<open>CRegID\<close> or \<^verbatim>\<open>CPubKey\<close>.
\<close>

definition CHECK_TX_REGID_OR_PUBKEY :: "Chain \<Rightarrow> CUserID \<Rightarrow> rejection option" where
  "CHECK_TX_REGID_OR_PUBKEY C uid =
     (case uid of
        UidPubKey pk \<Rightarrow> None
      | UidRegID r \<Rightarrow> None
      | UidOther \<Rightarrow> Some (uid_type_rejection C))"

text \<open>The key a vote adds to \<^verbatim>\<open>voteKeyIds\<close> (lines 55 to 59).\<close>

definition vote_keyid :: "Chain \<Rightarrow> CAccount \<Rightarrow> CCandidateVote \<Rightarrow> CKeyID" where
  "vote_keyid C account vote =
     (case candidateUid vote of
        UidPubKey pk \<Rightarrow> GetKeyId C pk
      | _ \<Rightarrow> keyid account)"

text \<open>
  One iteration of the loop over the candidate votes (lines 44 to 67): the checks of
  the vote and the key it adds to \<^verbatim>\<open>voteKeyIds\<close>. \<^verbatim>\<open>GetVotedBcoins\<close> is unsigned, so
  \<^verbatim>\<open>0 >= vote.GetVotedBcoins()\<close> holds for 0 only.
\<close>

definition check_vote ::
  "Chain \<Rightarrow> 'cw Caches \<Rightarrow> int \<Rightarrow> 'cw \<Rightarrow> CCandidateVote \<Rightarrow> rejection + CKeyID" where
  "check_vote C S height cw vote =
     (case CHECK_TX_REGID_OR_PUBKEY C (candidateUid vote) of
        Some r \<Rightarrow> Inl r
      | None \<Rightarrow>
          if votedBcoins vote \<le> 0 \<or> GetBaseCoinMaxMoney C < votedBcoins vote then Inl NoDoS
          else
            (case GetAccount S cw (candidateUid vote) of
               None \<Rightarrow> Inl (DoS 100 REJECT_INVALID ''bad-read-accountdb'')
             | Some account \<Rightarrow>
                 if GetFeatureForkVersion C height = MAJOR_VER_R2 C
                    \<and> \<not> HaveOwnerPubKey C account
                 then Inl (DoS 100 REJECT_INVALID ''bad-read-accountdb'')
                 else Inr (vote_keyid C account vote)))"

fun check_votes ::
  "Chain \<Rightarrow> 'cw Caches \<Rightarrow> int \<Rightarrow> 'cw \<Rightarrow> CCandidateVote list \<Rightarrow> CKeyID set
     \<Rightarrow> rejection + CKeyID set" where
  "check_votes C S height cw [] voteKeyIds = Inr voteKeyIds"
| "check_votes C S height cw (vote # votes) voteKeyIds =
     (case check_vote C S height cw vote of
        Inl r \<Rightarrow> Inl r
      | Inr k \<Rightarrow> check_votes C S height cw votes (insert k voteKeyIds))"

text \<open>The public key the signature is checked against (line 38).\<close>

definition signer_pubkey :: "CDelegateVoteTx \<Rightarrow> CAccount \<Rightarrow> CPubKey" where
  "signer_pubkey tx srcAccount =
     (case txUid tx of UidPubKey pk \<Rightarrow> pk | _ \<Rightarrow> owner_pubkey srcAccount)"

text \<open>
  The checks before the loop (lines 19 to 40), in the order of the source: the fee, the
  kind of the sender identifier, the length of the candidate list, the validity of a
  sender public key, the sender account, and the signature. \<open>None\<close> when all pass.
\<close>

definition sender_checks ::
  "Chain \<Rightarrow> 'cw Caches \<Rightarrow> int \<Rightarrow> CDelegateVoteTx \<Rightarrow> 'cw \<Rightarrow> rejection option" where
  "sender_checks C S height tx cw =
     (case CHECK_TX_FEE C height tx of
        Some r \<Rightarrow> Some r
      | None \<Rightarrow>
     (case CHECK_TX_REGID_OR_PUBKEY C (txUid tx) of
        Some r \<Rightarrow> Some r
      | None \<Rightarrow>
     if candidateVotes tx = [] \<or> length (candidateVotes tx) > GetMaxVoteCandidateNum C
     then Some (DoS 100 REJECT_INVALID ''candidate-votes-out-of-range'')
     else if (case txUid tx of UidPubKey pk \<Rightarrow> \<not> IsFullyValid C pk | _ \<Rightarrow> False)
     then Some (DoS 100 REJECT_INVALID ''bad-publickey'')
     else
     (case GetAccount S cw (txUid tx) of
        None \<Rightarrow> Some (DoS 100 REJECT_INVALID ''bad-read-accountdb'')
      | Some srcAccount \<Rightarrow>
          if GetFeatureForkVersion C height = MAJOR_VER_R2 C
          then CHECK_TX_SIGNATURE C (signer_pubkey tx srcAccount) tx
          else None)))"

definition CheckTx :: "Chain \<Rightarrow> 'cw Caches \<Rightarrow> int \<Rightarrow> CDelegateVoteTx \<Rightarrow> 'cw \<Rightarrow> outcome" where
  "CheckTx C S height tx cw =
     (case sender_checks C S height tx cw of
        Some r \<Rightarrow> Rejected r
      | None \<Rightarrow>
     (case check_votes C S height cw (candidateVotes tx) {} of
        Inl r \<Rightarrow> Rejected r
      | Inr voteKeyIds \<Rightarrow>
          if card voteKeyIds \<noteq> length (candidateVotes tx)
          then Rejected (DoS 100 REJECT_INVALID ''duplication-candidate-error'')
          else Accepted))"

section \<open>ExecuteTx\<close>

text \<open>
  The loop over the candidate votes (lines 112 to 140). Each iteration reads the
  candidate account, applies the vote to its received votes, sets the new delegate
  entry, erases the old one and saves the account; the first failing call ends the
  function with its rejection, and the wrapper stays as the calls so far left it.
\<close>

fun update_delegates ::
  "Chain \<Rightarrow> 'cw Caches \<Rightarrow> 'cw \<Rightarrow> CCandidateVote list \<Rightarrow> rejection option \<times> 'cw" where
  "update_delegates C S cw [] = (None, cw)"
| "update_delegates C S cw (vote # votes) =
     (case GetAccount S cw (candidateUid vote) of
        None \<Rightarrow> (Some (DoS 100 UPDATE_ACCOUNT_FAIL ''bad-read-accountdb''), cw)
      | Some delegate \<Rightarrow>
          let oldVotes = received_votes delegate in
          (case StakeVoteBcoins C delegate (candidateVoteType vote) (votedBcoins vote) of
             None \<Rightarrow> (Some (DoS 100 UPDATE_ACCOUNT_FAIL ''operate-vote-error''), cw)
           | Some delegate' \<Rightarrow>
               (case SetDelegateVotes S cw (regid delegate') (received_votes delegate') of
                  (False, cw1) \<Rightarrow> (Some (DoS 100 UPDATE_ACCOUNT_FAIL ''bad-save-delegatedb''), cw1)
                | (True, cw1) \<Rightarrow>
               (case EraseDelegateVotes S cw1 (regid delegate') oldVotes of
                  (False, cw2) \<Rightarrow> (Some (DoS 100 UPDATE_ACCOUNT_FAIL ''bad-save-delegatedb''), cw2)
                | (True, cw2) \<Rightarrow>
               (case SaveAccount S cw2 delegate' of
                  (False, cw3) \<Rightarrow> (Some (DoS 100 UPDATE_ACCOUNT_FAIL ''bad-save-accountdb''), cw3)
                | (True, cw3) \<Rightarrow> update_delegates C S cw3 votes)))))"

text \<open>
  \<^verbatim>\<open>regId\<close> is a reference to \<^verbatim>\<open>srcAccount.regid\<close>, so each use reads the regid of
  the sender account as it is at that line. The receipts start empty at line 97, after
  the fee was taken at line 88. The result of \<^verbatim>\<open>SetTxReceipts\<close> is not looked at.
\<close>

definition ExecuteTx ::
  "Chain \<Rightarrow> 'cw Caches \<Rightarrow> int \<Rightarrow> int \<Rightarrow> CDelegateVoteTx \<Rightarrow> 'cw \<Rightarrow> outcome \<times> 'cw" where
  "ExecuteTx C S height index tx cw =
     (case GetAccount S cw (txUid tx) of
        None \<Rightarrow> (Rejected (DoS 100 UPDATE_ACCOUNT_FAIL ''bad-read-accountdb''), cw)
      | Some srcAccount \<Rightarrow>
     (case GenerateRegID S tx srcAccount cw height index of
        (Inl r, cw1) \<Rightarrow> (Rejected r, cw1)
      | (Inr srcAccount1, cw1) \<Rightarrow>
     (case OperateBalance C srcAccount1 ''WICC'' SUB_FREE (llFees tx) of
        None \<Rightarrow> (Rejected (DoS 100 UPDATE_ACCOUNT_FAIL ''operate-account-failed''), cw1)
      | Some srcAccount2 \<Rightarrow>
     (let candidateVotesInOut = GetCandidateVotes S cw1 (regid srcAccount2) in
      case ProcessDelegateVotes S cw1 srcAccount2 (candidateVotes tx) candidateVotesInOut height [] of
        None \<Rightarrow> (Rejected (DoS 100 UPDATE_ACCOUNT_FAIL ''operate-delegate-failed''), cw1)
      | Some (srcAccount3, candidateVotesOut, receipts) \<Rightarrow>
     (case SetCandidateVotes S cw1 (regid srcAccount3) candidateVotesOut of
        (False, cw2) \<Rightarrow>
          (Rejected (DoS 100 WRITE_CANDIDATE_VOTES_FAIL ''write-candidate-votes-failed''), cw2)
      | (True, cw2) \<Rightarrow>
     (case SaveAccount S cw2 srcAccount3 of
        (False, cw3) \<Rightarrow> (Rejected (DoS 100 UPDATE_ACCOUNT_FAIL ''bad-save-accountdb''), cw3)
      | (True, cw3) \<Rightarrow>
     (case update_delegates C S cw3 (candidateVotes tx) of
        (Some r, cw4) \<Rightarrow> (Rejected r, cw4)
      | (None, cw4) \<Rightarrow> (Accepted, snd (SetTxReceipts S cw4 (GetHash C tx) receipts)))))))))"

section \<open>The collaborators as the spec describes them\<close>

text \<open>
  Modelled from the spec: the caches behind \<^verbatim>\<open>CCacheWrapper\<close> are not in the source
  file. The spec treats the storage as key-value stores with get, set and erase: an
  account store that gets and saves an account record by identifier, an identity
  resolver from a public key or a registered id to the account key, the voters' vote
  lists, the delegate index keyed by vote weight and account key, and the receipts of
  each transaction hash.
\<close>

record CCacheWrapper =
  accountCache :: "CKeyID \<rightharpoonup> CAccount"
  regidCache :: "CRegID \<rightharpoonup> CKeyID"
  candidateVotesCache :: "CRegID \<rightharpoonup> CCandidateReceivedVote list"
  delegateVotesCache :: "(uint64 \<times> CKeyID) set"
  txReceiptCache :: "uint256 \<rightharpoonup> CReceipt list"

text \<open>Modelled from the spec: the regid of an account that has no registered id yet.\<close>

definition empty_regid :: CRegID where
  "empty_regid = (0, 0)"

text \<open>
  Modelled from the spec: the identity resolver. A public key resolves through the
  address derived from the key, a registered id through the stored address.
\<close>

definition resolve_keyid :: "Chain \<Rightarrow> CCacheWrapper \<Rightarrow> CUserID \<Rightarrow> CKeyID option" where
  "resolve_keyid C cw uid =
     (case uid of
        UidPubKey pk \<Rightarrow> Some (GetKeyId C pk)
      | UidRegID r \<Rightarrow> regidCache cw r
      | UidOther \<Rightarrow> None)"

text \<open>Modelled from the spec: getting an account record by identifier.\<close>

definition kv_GetAccount :: "Chain \<Rightarrow> CCacheWrapper \<Rightarrow> CUserID \<Rightarrow> CAccount option" where
  "kv_GetAccount C cw uid =
     (case resolve_keyid C cw uid of None \<Rightarrow> None | Some k \<Rightarrow> accountCache cw k)"

text \<open>
  Modelled from the spec: saving an account record. The record is stored under its
  account key, and its registered id, once it has one, resolves to that key.
\<close>

definition kv_SaveAccount :: "CCacheWrapper \<Rightarrow> CAccount \<Rightarrow> bool \<times> CCacheWrapper" where
  "kv_SaveAccount cw a =
     (True, cw\<lparr>accountCache := (accountCache cw)(keyid a \<mapsto> a),
               regidCache := (if regid a = empty_regid then regidCache cw
                              else (regidCache cw)(regid a \<mapsto> keyid a))\<rparr>)"

text \<open>
  Modelled from the spec: step 2 of execute. A sender that has no registered id yet is
  given the one made from the height and the transaction index.
\<close>

definition assign_regid :: "int \<Rightarrow> int \<Rightarrow> CAccount \<Rightarrow> CAccount" where
  "assign_regid height index a =
     (if regid a = empty_regid then a\<lparr>regid := (height, index)\<rparr> else a)"

definition kv_GenerateRegID ::
  "CDelegateVoteTx \<Rightarrow> CAccount \<Rightarrow> CCacheWrapper \<Rightarrow> int \<Rightarrow> int
     \<Rightarrow> (rejection + CAccount) \<times> CCacheWrapper" where
  "kv_GenerateRegID tx a cw height index = (Inr (assign_regid height index a), cw)"

text \<open>Modelled from the spec: the voter's vote list, empty if there is none.\<close>

definition kv_GetCandidateVotes :: "CCacheWrapper \<Rightarrow> CRegID \<Rightarrow> CCandidateReceivedVote list" where
  "kv_GetCandidateVotes cw r = (case candidateVotesCache cw r of None \<Rightarrow> [] | Some l \<Rightarrow> l)"

definition kv_SetCandidateVotes ::
  "CCacheWrapper \<Rightarrow> CRegID \<Rightarrow> CCandidateReceivedVote list \<Rightarrow> bool \<times> CCacheWrapper" where
  "kv_SetCandidateVotes cw r l = (True, cw\<lparr>candidateVotesCache := (candidateVotesCache cw)(r \<mapsto> l)\<rparr>)"

text \<open>
  Modelled from the spec: insert and remove of the delegate index, whose entries are
  keyed by the vote weight and the account key of the candidate. The source passes
  the regid of the candidate (lines 126 and 131), which the identity resolver turns
  into the account key. A regid that resolves to no account key gives no entry to
  insert or to remove; the operation returns false there.
\<close>

definition kv_SetDelegateVotes :: "CCacheWrapper \<Rightarrow> CRegID \<Rightarrow> uint64 \<Rightarrow> bool \<times> CCacheWrapper" where
  "kv_SetDelegateVotes cw r votes =
     (case regidCache cw r of
        None \<Rightarrow> (False, cw)
      | Some k \<Rightarrow> (True, cw\<lparr>delegateVotesCache := insert (votes, k) (delegateVotesCache cw)\<rparr>))"

definition kv_EraseDelegateVotes :: "CCacheWrapper \<Rightarrow> CRegID \<Rightarrow> uint64 \<Rightarrow> bool \<times> CCacheWrapper" where
  "kv_EraseDelegateVotes cw r votes =
     (case regidCache cw r of
        None \<Rightarrow> (False, cw)
      | Some k \<Rightarrow> (True, cw\<lparr>delegateVotesCache := delegateVotesCache cw - {(votes, k)}\<rparr>))"

text \<open>Modelled from the spec: the receipt sink stores the batch under the transaction hash.\<close>

definition kv_SetTxReceipts :: "CCacheWrapper \<Rightarrow> uint256 \<Rightarrow> CReceipt list \<Rightarrow> bool \<times> CCacheWrapper" where
  "kv_SetTxReceipts cw h receipts = (True, cw\<lparr>txReceiptCache := (txReceiptCache cw)(h \<mapsto> receipts)\<rparr>)"

subsection \<open>The vote merge\<close>

text \<open>
  Modelled from the spec: \<^verbatim>\<open>CAccount::ProcessDelegateVotes\<close> is not in the source file.
  Step 5 of execute: a stake adds the vote weight to the existing weight, an unstake
  takes it off and stops at 0; the weights are unsigned 64-bit.
\<close>

definition merged_weight :: "VoteType \<Rightarrow> uint64 \<Rightarrow> uint64 \<Rightarrow> uint64" where
  "merged_weight t existing w =
     (case t of
        Stake \<Rightarrow> existing + w
      | Unstake \<Rightarrow> if existing < w then 0 else existing - w)"

definition existing_weight :: "CCandidateReceivedVote list \<Rightarrow> CKeyID \<Rightarrow> uint64" where
  "existing_weight l k = (case map_of l k of None \<Rightarrow> 0 | Some w \<Rightarrow> w)"

text \<open>
  Modelled from the spec: an entry whose new weight is 0 is removed from the list, any
  other is inserted or updated.
\<close>

definition merge_vote ::
  "VoteType \<Rightarrow> CKeyID \<Rightarrow> uint64 \<Rightarrow> CCandidateReceivedVote list \<Rightarrow> CCandidateReceivedVote list" where
  "merge_vote t k w l =
     (let new = merged_weight t (existing_weight l k) w
      in if new = 0 then AList.delete k l else AList.update k new l)"

text \<open>
  Modelled from the spec: the receipt of one vote records its net effect on the entry,
  a stake credit or a stake debit of the change of the weight.
\<close>

definition vote_effect :: "VoteType \<Rightarrow> EffectKind" where
  "vote_effect t = (case t of Stake \<Rightarrow> StakeCredit | Unstake \<Rightarrow> StakeDebit)"

definition vote_receipt :: "VoteType \<Rightarrow> CKeyID \<Rightarrow> uint64 \<Rightarrow> CCandidateReceivedVote list \<Rightarrow> CReceipt" where
  "vote_receipt t k w l =
     (let existing = existing_weight l k; new = merged_weight t existing w
      in \<lparr>receipt_account = k, receipt_kind = vote_effect t,
          receipt_amount = (case t of Stake \<Rightarrow> new - existing | Unstake \<Rightarrow> existing - new)\<rparr>)"

text \<open>
  Modelled from the spec: the votes are merged in transaction order. A candidate
  identifier that resolves to no account key has no entry to find; the function
  returns false there.
\<close>

fun kv_ProcessDelegateVotes ::
  "Chain \<Rightarrow> CCacheWrapper \<Rightarrow> CAccount \<Rightarrow> CCandidateVote list \<Rightarrow> CCandidateReceivedVote list
     \<Rightarrow> int \<Rightarrow> CReceipt list \<Rightarrow> (CAccount \<times> CCandidateReceivedVote list \<times> CReceipt list) option" where
  "kv_ProcessDelegateVotes C cw a [] l height receipts = Some (a, l, receipts)"
| "kv_ProcessDelegateVotes C cw a (vote # votes) l height receipts =
     (case resolve_keyid C cw (candidateUid vote) of
        None \<Rightarrow> None
      | Some k \<Rightarrow>
          kv_ProcessDelegateVotes C cw a votes
            (merge_vote (candidateVoteType vote) k (votedBcoins vote) l) height
            (receipts @ [vote_receipt (candidateVoteType vote) k (votedBcoins vote) l]))"

definition kv_caches :: "Chain \<Rightarrow> CCacheWrapper Caches" where
  "kv_caches C =
     \<lparr>GetAccount = kv_GetAccount C,
      SaveAccount = kv_SaveAccount,
      GenerateRegID = kv_GenerateRegID,
      GetCandidateVotes = kv_GetCandidateVotes,
      SetCandidateVotes = kv_SetCandidateVotes,
      ProcessDelegateVotes = kv_ProcessDelegateVotes C,
      SetDelegateVotes = kv_SetDelegateVotes,
      EraseDelegateVotes = kv_EraseDelegateVotes,
      SetTxReceipts = kv_SetTxReceipts\<rparr>"

subsection \<open>The account methods\<close>

text \<open>
  Modelled from the spec: \<^verbatim>\<open>CAccount::OperateBalance\<close> is not in the source file.
  Step 3 of execute: the amount is taken from the free balance of the asset; it fails
  on insufficient funds.
\<close>

definition spec_OperateBalance ::
  "CAccount \<Rightarrow> string \<Rightarrow> BalanceOpType \<Rightarrow> uint64 \<Rightarrow> CAccount option" where
  "spec_OperateBalance a symbol opType amount =
     (case opType of
        SUB_FREE \<Rightarrow>
          if balances a symbol < amount then None
          else Some (a\<lparr>balances := (balances a)(symbol := balances a symbol - amount)\<rparr>))"

text \<open>
  Modelled from the spec: \<^verbatim>\<open>CAccount::StakeVoteBcoins\<close> is not in the source file.
  Step 8 of execute: the vote is applied to the received vote weight, and it fails if
  that would underflow. The call at line 120 hands the method of the candidate account
  the vote type and the vote weight and nothing of the voter, so the weight is
  compared with the received vote weight of the candidate.
\<close>

definition spec_StakeVoteBcoins :: "CAccount \<Rightarrow> VoteType \<Rightarrow> uint64 \<Rightarrow> CAccount option" where
  "spec_StakeVoteBcoins a t votes =
     (case t of
        Stake \<Rightarrow> Some (a\<lparr>received_votes := received_votes a + votes\<rparr>)
      | Unstake \<Rightarrow>
          if received_votes a < votes then None
          else Some (a\<lparr>received_votes := received_votes a - votes\<rparr>))"

definition spec_chain :: "Chain \<Rightarrow> Chain" where
  "spec_chain C = C\<lparr>OperateBalance := spec_OperateBalance, StakeVoteBcoins := spec_StakeVoteBcoins\<rparr>"

subsection \<open>An example chain and the scenario state\<close>

text \<open>
  An example of the remaining collaborators, to run the functions on concrete inputs:
  a fee policy that accepts every fee, a signature verifier that accepts the signature
  equal to the public key, the two feature fork versions by height, the later of them
  \<^verbatim>\<open>MAJOR_VER_R2\<close>, public keys that are valid when they start with 2 or 3, and
  addresses that sum the bytes of the key.
\<close>

definition chain0 :: Chain where
  "chain0 =
     \<lparr>CHECK_TX_FEE = (\<lambda>height tx. None),
      CHECK_TX_SIGNATURE =
        (\<lambda>pk tx. if signature tx = pk then None
                  else Some (DoS 100 REJECT_INVALID ''bad-signature'')),
      uid_type_rejection = DoS 100 REJECT_INVALID ''uid-type-error'',
      GetMaxVoteCandidateNum = 11,
      GetBaseCoinMaxMoney = 21000000000000000,
      GetFeatureForkVersion =
        (\<lambda>height. if height < 100 then 10000 else 20000),
      MAJOR_VER_R2 = 20000,
      IsFullyValid = (\<lambda>pk. case pk of [] \<Rightarrow> False | b # bs \<Rightarrow> b = 2 \<or> b = 3),
      GetKeyId = (\<lambda>pk. of_nat (sum_list (map unat pk))),
      HaveOwnerPubKey = (\<lambda>a. owner_pubkey a \<noteq> []),
      OperateBalance = spec_OperateBalance,
      StakeVoteBcoins = spec_StakeVoteBcoins,
      GetHash = (\<lambda>tx. ucast (llFees tx) + of_int (valid_height tx))\<rparr>"

text \<open>
  The accounts of the spec's scenarios: the sender S, registered, with a balance of
  5000, and the candidate D, registered, with the received vote weight given.
\<close>

definition account_S :: CAccount where
  "account_S =
     \<lparr>keyid = 3, regid = (1, 1), owner_pubkey = [2, 1],
      balances = (\<lambda>symbol. if symbol = ''WICC'' then 5000 else 0), received_votes = 0\<rparr>"

definition account_D :: "uint64 \<Rightarrow> CAccount" where
  "account_D votes =
     \<lparr>keyid = 4, regid = (1, 2), owner_pubkey = [3, 1],
      balances = (\<lambda>symbol. 0), received_votes = votes\<rparr>"

text \<open>
  The state of a scenario: the weight S has staked on D so far (no vote list when it
  is 0), and the vote weight D has received, which is in the delegate index.
\<close>

definition scenario_cw :: "uint64 \<Rightarrow> uint64 \<Rightarrow> CCacheWrapper" where
  "scenario_cw staked votes =
     \<lparr>accountCache = [3 \<mapsto> account_S, 4 \<mapsto> account_D votes],
      regidCache = [(1, 1) \<mapsto> 3, (1, 2) \<mapsto> 4],
      candidateVotesCache = (if staked = 0 then Map.empty else [(1, 1) \<mapsto> [(4, staked)]]),
      delegateVotesCache = {(0, 3), (votes, 4)},
      txReceiptCache = Map.empty\<rparr>"

definition vote_tx :: "CUserID \<Rightarrow> CCandidateVote list \<Rightarrow> CDelegateVoteTx" where
  "vote_tx uid votes =
     \<lparr>nVersion = 1, txUid = uid, llFees = 100, valid_height = 150,
      signature = [2, 1], candidateVotes = votes\<rparr>"

definition vote_on_D :: "VoteType \<Rightarrow> uint64 \<Rightarrow> CCandidateVote" where
  "vote_on_D t w = \<lparr>candidateVoteType = t, candidateUid = UidRegID (1, 2), votedBcoins = w\<rparr>"

definition vote_on_D_by_key :: "VoteType \<Rightarrow> uint64 \<Rightarrow> CCandidateVote" where
  "vote_on_D_by_key t w =
     \<lparr>candidateVoteType = t, candidateUid = UidPubKey [3, 1], votedBcoins = w\<rparr>"


text \<open>The stake of S on D with a fee of 6000, above the balance of S.\<close>

definition costly_tx :: CDelegateVoteTx where
  "costly_tx = (vote_tx (UidRegID (1, 1)) [vote_on_D Stake 1000])\<lparr>llFees := 6000\<rparr>"

subsection \<open>Well-formed stores\<close>

text \<open>
  The invariant of the account store: an account is stored under its own account key,
  the regid of a stored account that has one resolves to that account, a regid
  resolves to a stored account that carries it, and the empty regid resolves to none.
\<close>

definition wf_store :: "CCacheWrapper \<Rightarrow> bool" where
  "wf_store cw \<longleftrightarrow>
     (\<forall>k a. accountCache cw k = Some a \<longrightarrow>
        keyid a = k \<and> (regid a \<noteq> empty_regid \<longrightarrow> regidCache cw (regid a) = Some k))
     \<and> (\<forall>r k. regidCache cw r = Some k \<longrightarrow> (\<exists>a. accountCache cw k = Some a \<and> regid a = r))
     \<and> regidCache cw empty_regid = None"

text \<open>
  The account keys of the candidate accounts of a vote list. The check lets a
  transaction pass only if its candidates are found and their account keys are
  pairwise distinct.
\<close>

definition candidate_keyids :: "Chain \<Rightarrow> CCacheWrapper \<Rightarrow> CCandidateVote list \<Rightarrow> CKeyID option list" where
  "candidate_keyids C cw votes =
     map (\<lambda>v. map_option keyid (kv_GetAccount C cw (candidateUid v))) votes"

text \<open>
  What the proofs on the stores need of the two account methods that change the
  account, whatever else they do: \<^verbatim>\<open>OperateBalance\<close> leaves the account key, the regid
  and the received votes as they are, and \<^verbatim>\<open>StakeVoteBcoins\<close> the account key and the
  regid.
\<close>

definition keeps_identity :: "Chain \<Rightarrow> bool" where
  "keeps_identity C \<longleftrightarrow>
     (\<forall>a symbol opType amount a'. OperateBalance C a symbol opType amount = Some a' \<longrightarrow>
        keyid a' = keyid a \<and> regid a' = regid a \<and> received_votes a' = received_votes a)
     \<and> (\<forall>d t votes d'. StakeVoteBcoins C d t votes = Some d' \<longrightarrow>
        keyid d' = keyid d \<and> regid d' = regid d)"




section \<open>Running the example\<close>

lemmas example_defs =
  chain0_def spec_chain_def kv_caches_def vote_tx_def vote_on_D_def scenario_cw_def
  account_S_def account_D_def empty_regid_def

lemmas ExecuteTx_defs =
  ExecuteTx_def kv_GetAccount_def resolve_keyid_def kv_SaveAccount_def kv_GenerateRegID_def
  assign_regid_def
  kv_GetCandidateVotes_def kv_SetCandidateVotes_def kv_SetDelegateVotes_def
  kv_EraseDelegateVotes_def kv_SetTxReceipts_def spec_OperateBalance_def
  spec_StakeVoteBcoins_def merge_vote_def vote_receipt_def vote_effect_def merged_weight_def
  existing_weight_def

lemmas CheckTx_defs =
  CheckTx_def sender_checks_def CHECK_TX_REGID_OR_PUBKEY_def signer_pubkey_def
  check_vote_def vote_keyid_def kv_GetAccount_def resolve_keyid_def

section \<open>Properties of CheckTx\<close>

text \<open>
  C4: a candidate vote whose weight is 0 or above the maximum makes the check fail with
  a rejection that carries a reason code and a misbehaviour score of 100, like every
  other failing check. The source returns a bare \<^verbatim>\<open>ERRORMSG\<close> at line 49: the check
  fails, and no score and no reason are recorded. Evaluated on a vote of weight 0 and on
  a vote of one more than the maximum, by the registered sender S on candidate D.
\<close>

theorem CheckTx_vote_weight_rejection_carries_no_score:
  "CheckTx chain0 (kv_caches chain0) 150
      (vote_tx (UidRegID (1, 1)) [vote_on_D Stake 0]) (scenario_cw 0 0)
     = Rejected NoDoS
   \<and> CheckTx chain0 (kv_caches chain0) 150
      (vote_tx (UidRegID (1, 1)) [vote_on_D Stake (GetBaseCoinMaxMoney chain0 + 1)])
      (scenario_cw 0 0)
     = Rejected NoDoS"
  by (simp add: example_defs CheckTx_defs)

text \<open>
  C6, as the source has it: the length of the candidate list is checked at line 22,
  before the validity of a sender public key at line 27. A transaction whose fee check
  passes, whose sender is a public key that is not fully valid and whose candidate
  list is empty or longer than the maximum is rejected with
  \<^verbatim>\<open>candidate-votes-out-of-range\<close> and a score of 100.
\<close>

theorem CheckTx_list_length_before_sender_key:
  assumes "CHECK_TX_FEE C height tx = None"
    and "txUid tx = UidPubKey pk"
    and "\<not> IsFullyValid C pk"
    and "length (candidateVotes tx) < 1 \<or> GetMaxVoteCandidateNum C < length (candidateVotes tx)"
  shows "CheckTx C S height tx cw
           = Rejected (DoS 100 REJECT_INVALID ''candidate-votes-out-of-range'')"
  using assms by (auto simp: CheckTx_def sender_checks_def CHECK_TX_REGID_OR_PUBKEY_def)

theorem CheckTx_list_length_before_sender_key_witness:
  "CHECK_TX_FEE chain0 150 (vote_tx (UidPubKey [9]) (replicate 12 (vote_on_D Stake 1))) = None
   \<and> txUid (vote_tx (UidPubKey [9]) (replicate 12 (vote_on_D Stake 1))) = UidPubKey [9]
   \<and> \<not> IsFullyValid chain0 [9]
   \<and> GetMaxVoteCandidateNum chain0
       < length (candidateVotes (vote_tx (UidPubKey [9]) (replicate 12 (vote_on_D Stake 1))))
   \<and> CheckTx chain0 (kv_caches chain0) 150
        (vote_tx (UidPubKey [9]) (replicate 12 (vote_on_D Stake 1))) (scenario_cw 0 0)
       = Rejected (DoS 100 REJECT_INVALID ''candidate-votes-out-of-range'')"
  using CheckTx_list_length_before_sender_key
    [of chain0 150 "vote_tx (UidPubKey [9]) (replicate 12 (vote_on_D Stake 1))" "[9]"
        "kv_caches chain0" "scenario_cw 0 0"]
  by (simp add: chain0_def vote_tx_def)

text \<open>
  C6, as the claim states it, fails: the sender is the public key [9], which is not
  fully valid, the candidate list is empty, and the check does not reject with
  \<^verbatim>\<open>bad-publickey\<close>.
\<close>

theorem CheckTx_invalid_sender_key_empty_list:
  "txUid (vote_tx (UidPubKey [9]) []) = UidPubKey [9]
   \<and> \<not> IsFullyValid chain0 [9]
   \<and> length (candidateVotes (vote_tx (UidPubKey [9]) [])) = 0
   \<and> CheckTx chain0 (kv_caches chain0) 150 (vote_tx (UidPubKey [9]) []) (scenario_cw 0 0)
       \<noteq> Rejected (DoS 100 REJECT_INVALID ''bad-publickey'')"
  by (simp add: example_defs CheckTx_defs)

subsection \<open>The feature fork version\<close>

lemma check_votes_Inr_all:
  "check_votes C S height cw votes ids = Inr ids' \<Longrightarrow> v \<in> set votes
     \<Longrightarrow> \<exists>k. check_vote C S height cw v = Inr k"
  by (induction votes arbitrary: ids) (auto split: sum.splits)








subsection \<open>Duplicate candidates\<close>

lemma check_votes_Inr_keys:
  "\<forall>v \<in> set votes. \<exists>k. check_vote C S height cw v = Inr k \<Longrightarrow>
   check_votes C S height cw votes ids
     = Inr (ids \<union> set (map (\<lambda>v. projr (check_vote C S height cw v)) votes))"
  by (induction votes arbitrary: ids) (auto split: sum.splits)

lemma card_lt_length_if_repeat:
  assumes "i < j" "j < length xs" "xs ! i = xs ! j"
  shows "card (set xs) < length xs"
proof -
  from assms have "i < length xs" "i \<noteq> j" by simp_all
  with assms have "\<not> distinct xs"
    unfolding distinct_conv_nth by blast
  then have "card (set xs) \<noteq> length xs"
    using card_distinct by blast
  with card_length[of xs] show ?thesis by simp
qed

text \<open>
  The key of a vote that passes its checks: the address derived from the public key
  for a public-key vote, the stored address of the account for a registered-id vote.
\<close>

lemma check_vote_Inr_key:
  assumes "check_vote C S height cw vote = Inr k"
  shows "(\<forall>pk. candidateUid vote = UidPubKey pk \<longrightarrow> k = GetKeyId C pk)
       \<and> (\<forall>r. candidateUid vote = UidRegID r \<longrightarrow>
            (\<exists>account. GetAccount S cw (UidRegID r) = Some account \<and> k = keyid account))"
  using assms
  by (auto simp: check_vote_def vote_keyid_def split: option.splits if_splits)

text \<open>
  C7: when the checks before the duplicate check pass (those of the sender, and those
  of every vote), and two entries of the candidate list resolve to the same account
  key \<open>k\<close>, the set of resolved keys is smaller than the list and the check rejects with
  \<^verbatim>\<open>duplication-candidate-error\<close>. The key of an entry is the one \<open>check_vote\<close>
  returns, so the two entries may be of different identifier kinds.
\<close>

theorem CheckTx_duplicate_candidate:
  assumes pre: "sender_checks C S height tx cw = None"
    and each: "\<forall>v \<in> set (candidateVotes tx). \<exists>k. check_vote C S height cw v = Inr k"
    and ij: "i < j" "j < length (candidateVotes tx)"
    and ki: "check_vote C S height cw (candidateVotes tx ! i) = Inr k"
    and kj: "check_vote C S height cw (candidateVotes tx ! j) = Inr k"
  shows "\<exists>voteKeyIds. check_votes C S height cw (candidateVotes tx) {} = Inr voteKeyIds
           \<and> card voteKeyIds < length (candidateVotes tx)
           \<and> CheckTx C S height tx cw
               = Rejected (DoS 100 REJECT_INVALID ''duplication-candidate-error'')"
proof -
  let ?keys = "map (\<lambda>v. projr (check_vote C S height cw v)) (candidateVotes tx)"
  have cv: "check_votes C S height cw (candidateVotes tx) {} = Inr (set ?keys)"
    using check_votes_Inr_keys[OF each, of "{}"] by simp
  from ij ki kj have "?keys ! i = ?keys ! j" by simp
  with ij have "card (set ?keys) < length ?keys"
    by (intro card_lt_length_if_repeat[of i j]) simp_all
  then have lt: "card (set ?keys) < length (candidateVotes tx)" by simp
  with pre cv show ?thesis
    by (simp add: CheckTx_def)
qed

text \<open>
  S votes for D twice, once by D's public key and once by D's registered id: both
  entries resolve to D's account key 4.
\<close>

theorem CheckTx_duplicate_candidate_witness:
  "sender_checks chain0 (kv_caches chain0) 150
      (vote_tx (UidRegID (1, 1)) [vote_on_D_by_key Stake 500, vote_on_D Stake 1000])
      (scenario_cw 0 0) = None
   \<and> check_vote chain0 (kv_caches chain0) 150 (scenario_cw 0 0) (vote_on_D_by_key Stake 500)
       = Inr 4
   \<and> check_vote chain0 (kv_caches chain0) 150 (scenario_cw 0 0) (vote_on_D Stake 1000) = Inr 4
   \<and> (\<exists>voteKeyIds.
        check_votes chain0 (kv_caches chain0) 150 (scenario_cw 0 0)
          [vote_on_D_by_key Stake 500, vote_on_D Stake 1000] {} = Inr voteKeyIds
        \<and> card voteKeyIds < 2)
   \<and> CheckTx chain0 (kv_caches chain0) 150
        (vote_tx (UidRegID (1, 1)) [vote_on_D_by_key Stake 500, vote_on_D Stake 1000])
        (scenario_cw 0 0)
       = Rejected (DoS 100 REJECT_INVALID ''duplication-candidate-error'')"
proof -
  let ?tx = "vote_tx (UidRegID (1, 1)) [vote_on_D_by_key Stake 500, vote_on_D Stake 1000]"
  have votes: "candidateVotes ?tx = [vote_on_D_by_key Stake 500, vote_on_D Stake 1000]"
    by (simp add: vote_tx_def)
  have pre: "sender_checks chain0 (kv_caches chain0) 150 ?tx (scenario_cw 0 0) = None"
    by (simp add: example_defs CheckTx_defs vote_on_D_by_key_def)
  have k1: "check_vote chain0 (kv_caches chain0) 150 (scenario_cw 0 0)
              (vote_on_D_by_key Stake 500) = Inr 4"
    by (simp add: example_defs CheckTx_defs vote_on_D_by_key_def)
  have k2: "check_vote chain0 (kv_caches chain0) 150 (scenario_cw 0 0)
              (vote_on_D Stake 1000) = Inr 4"
    by (simp add: example_defs CheckTx_defs)
  have each: "\<forall>v \<in> set (candidateVotes ?tx).
      \<exists>k. check_vote chain0 (kv_caches chain0) 150 (scenario_cw 0 0) v = Inr k"
    using k1 k2 by (simp add: votes)
  have ki: "check_vote chain0 (kv_caches chain0) 150 (scenario_cw 0 0)
              (candidateVotes ?tx ! 0) = Inr 4"
    using k1 by (simp add: votes)
  have kj: "check_vote chain0 (kv_caches chain0) 150 (scenario_cw 0 0)
              (candidateVotes ?tx ! 1) = Inr 4"
    using k2 by (simp add: votes)
  from CheckTx_duplicate_candidate[OF pre each _ _ ki kj] pre k1 k2 show ?thesis
    by (simp add: votes)
qed

section \<open>Properties of ExecuteTx\<close>

lemma update_delegates_SetTxReceipts:
  "update_delegates C (S\<lparr>SetTxReceipts := f\<rparr>) cw votes = update_delegates C S cw votes"
  by (induction votes arbitrary: cw) (auto split: option.splits prod.splits bool.splits)

text \<open>
  C10: the outcome of \<^verbatim>\<open>ExecuteTx\<close> does not depend on the receipt store. Whatever
  \<^verbatim>\<open>SetTxReceipts\<close> returns and does, a failure included, the transaction ends with
  the same outcome: the result of the call at line 142 is not looked at.
\<close>

theorem ExecuteTx_outcome_ignores_SetTxReceipts:
  "fst (ExecuteTx C (S\<lparr>SetTxReceipts := f\<rparr>) height index tx cw)
     = fst (ExecuteTx C S height index tx cw)"
  by (simp add: ExecuteTx_def update_delegates_SetTxReceipts
      split: option.splits prod.splits sum.splits bool.splits)

lemma update_delegates_rejections:
  "update_delegates C S cw votes = (Some r, cw') \<Longrightarrow>
     r = DoS 100 UPDATE_ACCOUNT_FAIL ''bad-read-accountdb''
   \<or> r = DoS 100 UPDATE_ACCOUNT_FAIL ''operate-vote-error''
   \<or> r = DoS 100 UPDATE_ACCOUNT_FAIL ''bad-save-delegatedb''
   \<or> r = DoS 100 UPDATE_ACCOUNT_FAIL ''bad-save-accountdb''"
  by (induction votes arbitrary: cw)
     (auto split: option.splits prod.splits bool.splits)

text \<open>
  C1, as the source has it: \<^verbatim>\<open>ExecuteTx\<close> writes into the cache wrapper it is given and
  undoes nothing when a later step fails. A failure before its first write leaves the
  wrapper unchanged: when the sender account cannot be read, when the fee cannot be
  taken (\<^verbatim>\<open>operate-account-failed\<close>) or when the vote merge fails
  (\<^verbatim>\<open>operate-delegate-failed\<close>), provided the assignment of the sender's regid wrote
  nothing.
\<close>

theorem ExecuteTx_failure_before_first_write:
  assumes exec: "ExecuteTx C S height index tx cw = (Rejected r, cw')"
    and regid: "\<forall>srcAccount. GetAccount S cw (txUid tx) = Some srcAccount
                  \<longrightarrow> snd (GenerateRegID S tx srcAccount cw height index) = cw"
    and early: "GetAccount S cw (txUid tx) = None
                \<or> r = DoS 100 UPDATE_ACCOUNT_FAIL ''operate-account-failed''
                \<or> r = DoS 100 UPDATE_ACCOUNT_FAIL ''operate-delegate-failed''"
  shows "cw' = cw"
proof (cases "GetAccount S cw (txUid tx)")
  case None
  with exec show ?thesis by (simp add: ExecuteTx_def)
next
  case (Some srcAccount)
  with regid have g: "snd (GenerateRegID S tx srcAccount cw height index) = cw" by simp
  from Some early have r: "r = DoS 100 UPDATE_ACCOUNT_FAIL ''operate-account-failed''
                \<or> r = DoS 100 UPDATE_ACCOUNT_FAIL ''operate-delegate-failed''" by simp
  show ?thesis
  proof (cases "GenerateRegID S tx srcAccount cw height index")
    case (Pair res cw1)
    with g have cw1: "cw1 = cw" by simp
    show ?thesis
      using exec Some Pair cw1 r
      by (auto simp: ExecuteTx_def Let_def
          split: option.splits prod.splits sum.splits bool.splits
          dest: update_delegates_rejections)
  qed
qed

text \<open>The fee of 6000 is above the balance of S: the fee cannot be taken, nothing is written.\<close>

theorem ExecuteTx_failure_before_first_write_witness:
  "fst (ExecuteTx (spec_chain chain0) (kv_caches chain0) 150 1 costly_tx (scenario_cw 0 0))
     = Rejected (DoS 100 UPDATE_ACCOUNT_FAIL ''operate-account-failed'')
   \<and> snd (ExecuteTx (spec_chain chain0) (kv_caches chain0) 150 1 costly_tx (scenario_cw 0 0))
     = scenario_cw 0 0"
proof -
  let ?run = "ExecuteTx (spec_chain chain0) (kv_caches chain0) 150 1 costly_tx (scenario_cw 0 0)"
  have out: "fst ?run = Rejected (DoS 100 UPDATE_ACCOUNT_FAIL ''operate-account-failed'')"
    by (simp add: example_defs ExecuteTx_defs costly_tx_def)
  then have exec: "?run = (Rejected (DoS 100 UPDATE_ACCOUNT_FAIL ''operate-account-failed''), snd ?run)"
    by (metis prod.collapse)
  have regid: "\<forall>srcAccount. GetAccount (kv_caches chain0) (scenario_cw 0 0) (txUid costly_tx) = Some srcAccount
                  \<longrightarrow> snd (GenerateRegID (kv_caches chain0) costly_tx srcAccount (scenario_cw 0 0) 150 1) = scenario_cw 0 0"
    by (simp add: kv_caches_def kv_GenerateRegID_def)
  from ExecuteTx_failure_before_first_write[OF exec regid] out show ?thesis
    by simp
qed

text \<open>
  C1, as the claim states it, fails: in scenario C the unstake of 2000 fails at the
  candidate D with \<^verbatim>\<open>operate-vote-error\<close>, after the vote list of S and the account of
  S were written. In the wrapper \<^verbatim>\<open>ExecuteTx\<close> leaves, the balance of S is 4900 instead
  of 5000 and the vote list of S is empty instead of holding 1000 on D.
\<close>

theorem ExecuteTx_failure_leaves_sender_writes:
  "fst (ExecuteTx (spec_chain chain0) (kv_caches chain0) 150 1
          (vote_tx (UidRegID (1, 1)) [vote_on_D Unstake 2000]) (scenario_cw 1000 1000))
     = Rejected (DoS 100 UPDATE_ACCOUNT_FAIL ''operate-vote-error'')
   \<and> map_option (\<lambda>a. balances a ''WICC'') (accountCache (scenario_cw 1000 1000) 3) = Some 5000
   \<and> map_option (\<lambda>a. balances a ''WICC'')
        (accountCache (snd (ExecuteTx (spec_chain chain0) (kv_caches chain0) 150 1
          (vote_tx (UidRegID (1, 1)) [vote_on_D Unstake 2000]) (scenario_cw 1000 1000))) 3)
       = Some 4900
   \<and> candidateVotesCache (scenario_cw 1000 1000) (1, 1) = Some [(4, 1000)]
   \<and> candidateVotesCache (snd (ExecuteTx (spec_chain chain0) (kv_caches chain0) 150 1
          (vote_tx (UidRegID (1, 1)) [vote_on_D Unstake 2000]) (scenario_cw 1000 1000))) (1, 1)
       = Some []"
  by (simp add: example_defs ExecuteTx_defs)

subsection \<open>Receipts\<close>

lemma kv_ProcessDelegateVotes_receipts:
  "kv_ProcessDelegateVotes C cw a votes l height prior = Some (a', l', rs) \<Longrightarrow>
     a' = a \<and> map receipt_kind rs
               = map receipt_kind prior @ map (\<lambda>v. vote_effect (candidateVoteType v)) votes"
  by (induction votes arbitrary: l prior) (auto simp: vote_receipt_def Let_def split: option.splits)

lemma ExecuteTx_Accepted_receipts:
  assumes "ExecuteTx C S height index tx cw = (Accepted, cw')"
  shows "\<exists>cw1 srcAccount2 srcAccount3 candidateVotesOut receipts cw4.
           ProcessDelegateVotes S cw1 srcAccount2 (candidateVotes tx)
               (GetCandidateVotes S cw1 (regid srcAccount2)) height []
             = Some (srcAccount3, candidateVotesOut, receipts)
           \<and> cw' = snd (SetTxReceipts S cw4 (GetHash C tx) receipts)"
  using assms
  by (auto simp: ExecuteTx_def Let_def
      split: option.splits prod.splits sum.splits bool.splits)
     blast

text \<open>
  C3, as the source has it: the receipts start empty at line 97, after the fee was
  taken at line 88, and only \<^verbatim>\<open>ProcessDelegateVotes\<close> adds to them. For whatever
  collaborators, the batch an accepted transaction hands to the receipt store is the
  one \<^verbatim>\<open>ProcessDelegateVotes\<close> returned when started from the empty batch:
  \<^verbatim>\<open>ExecuteTx\<close> adds no receipt of its own, and none for the fee. With the vote merge
  and the receipt store of the spec, the batch stored under the hash of an accepted
  transaction holds one receipt for each candidate vote, a stake credit for a stake
  and a stake debit for an unstake, and no fee debit.
\<close>

theorem ExecuteTx_receipts_are_vote_receipts:
  "(ExecuteTx C S height index tx cw = (Accepted, cw') \<longrightarrow>
      (\<exists>cw1 srcAccount2 srcAccount3 candidateVotesOut receipts cw4.
         ProcessDelegateVotes S cw1 srcAccount2 (candidateVotes tx)
             (GetCandidateVotes S cw1 (regid srcAccount2)) height []
           = Some (srcAccount3, candidateVotesOut, receipts)
         \<and> cw' = snd (SetTxReceipts S cw4 (GetHash C tx) receipts)))
   \<and> (ExecuteTx (spec_chain C) (kv_caches C) height index tx kw = (Accepted, kw') \<longrightarrow>
      (\<exists>receipts. txReceiptCache kw' (GetHash C tx) = Some receipts
         \<and> map receipt_kind receipts
             = map (\<lambda>v. vote_effect (candidateVoteType v)) (candidateVotes tx)
         \<and> length receipts = length (candidateVotes tx)
         \<and> FeeDebit \<notin> receipt_kind ` set receipts))"
proof (intro conjI impI)
  assume "ExecuteTx C S height index tx cw = (Accepted, cw')"
  then show "\<exists>cw1 srcAccount2 srcAccount3 candidateVotesOut receipts cw4.
         ProcessDelegateVotes S cw1 srcAccount2 (candidateVotes tx)
             (GetCandidateVotes S cw1 (regid srcAccount2)) height []
           = Some (srcAccount3, candidateVotesOut, receipts)
         \<and> cw' = snd (SetTxReceipts S cw4 (GetHash C tx) receipts)"
    by (rule ExecuteTx_Accepted_receipts)
next
  assume "ExecuteTx (spec_chain C) (kv_caches C) height index tx kw = (Accepted, kw')"
  from ExecuteTx_Accepted_receipts[OF this]
  obtain kw1 a a' l' receipts kw4 where
    p: "kv_ProcessDelegateVotes C kw1 a (candidateVotes tx)
          (kv_GetCandidateVotes kw1 (regid a)) height [] = Some (a', l', receipts)"
    and c: "kw' = snd (kv_SetTxReceipts kw4 (GetHash C tx) receipts)"
    by (auto simp: kv_caches_def spec_chain_def)
  from kv_ProcessDelegateVotes_receipts[OF p]
  have k: "map receipt_kind receipts
               = map (\<lambda>v. vote_effect (candidateVoteType v)) (candidateVotes tx)" by simp
  then have len: "length receipts = length (candidateVotes tx)"
    by (metis length_map)
  have "receipt_kind ` set receipts = set (map receipt_kind receipts)" by simp
  also have "\<dots> = set (map (\<lambda>v. vote_effect (candidateVoteType v)) (candidateVotes tx))"
    by (simp only: k)
  finally have "FeeDebit \<notin> receipt_kind ` set receipts"
    by (auto simp: vote_effect_def split: VoteType.splits)
  with c k len
  show "\<exists>receipts. txReceiptCache kw' (GetHash C tx) = Some receipts
         \<and> map receipt_kind receipts
             = map (\<lambda>v. vote_effect (candidateVoteType v)) (candidateVotes tx)
         \<and> length receipts = length (candidateVotes tx)
         \<and> FeeDebit \<notin> receipt_kind ` set receipts"
    by (simp add: kv_SetTxReceipts_def)
qed

text \<open>Scenario A: S, registered, with a balance of 5000 and a fee of 100, stakes 1000 on D.\<close>

theorem ExecuteTx_receipts_are_vote_receipts_witness:
  "fst (ExecuteTx (spec_chain chain0) (kv_caches chain0) 150 1
          (vote_tx (UidRegID (1, 1)) [vote_on_D Stake 1000]) (scenario_cw 0 0)) = Accepted
   \<and> (\<exists>cw1 srcAccount2 srcAccount3 candidateVotesOut receipts cw4.
         ProcessDelegateVotes (kv_caches chain0) cw1 srcAccount2 [vote_on_D Stake 1000]
             (GetCandidateVotes (kv_caches chain0) cw1 (regid srcAccount2)) 150 []
           = Some (srcAccount3, candidateVotesOut, receipts)
         \<and> snd (ExecuteTx (spec_chain chain0) (kv_caches chain0) 150 1
                  (vote_tx (UidRegID (1, 1)) [vote_on_D Stake 1000]) (scenario_cw 0 0))
             = snd (SetTxReceipts (kv_caches chain0) cw4
                      (GetHash (spec_chain chain0) (vote_tx (UidRegID (1, 1)) [vote_on_D Stake 1000]))
                      receipts))
   \<and> (\<exists>receipts.
        txReceiptCache
          (snd (ExecuteTx (spec_chain chain0) (kv_caches chain0) 150 1
                  (vote_tx (UidRegID (1, 1)) [vote_on_D Stake 1000]) (scenario_cw 0 0)))
          (GetHash chain0 (vote_tx (UidRegID (1, 1)) [vote_on_D Stake 1000])) = Some receipts
        \<and> map receipt_kind receipts = [StakeCredit]
        \<and> length receipts = 1
        \<and> FeeDebit \<notin> receipt_kind ` set receipts)"
proof -
  let ?tx = "vote_tx (UidRegID (1, 1)) [vote_on_D Stake 1000]"
  let ?run = "ExecuteTx (spec_chain chain0) (kv_caches chain0) 150 1 ?tx (scenario_cw 0 0)"
  have out: "fst ?run = Accepted"
    by (simp add: example_defs ExecuteTx_defs)
  then have exec: "?run = (Accepted, snd ?run)"
    by (metis prod.collapse)
  have votes: "candidateVotes ?tx = [vote_on_D Stake 1000]"
    by (simp add: vote_tx_def)
  have kinds: "map (\<lambda>v. vote_effect (candidateVoteType v)) [vote_on_D Stake 1000] = [StakeCredit]"
    by (simp add: vote_on_D_def vote_effect_def)
  note on_code = ExecuteTx_receipts_are_vote_receipts
    [where C = "spec_chain chain0" and S = "kv_caches chain0" and height = 150 and index = 1
       and tx = ?tx and cw = "scenario_cw 0 0" and cw' = "snd ?run"]
  note on_stores = ExecuteTx_receipts_are_vote_receipts
    [where C = chain0 and height = 150 and index = 1
       and tx = ?tx and kw = "scenario_cw 0 0" and kw' = "snd ?run"]
  note generic = on_code[THEN conjunct1, THEN mp, OF exec, unfolded votes]
  note stored = on_stores[THEN conjunct2, THEN mp, OF exec, unfolded votes kinds]
  from stored have stored': "\<exists>receipts.
        txReceiptCache (snd ?run) (GetHash chain0 ?tx) = Some receipts
        \<and> map receipt_kind receipts = [StakeCredit]
        \<and> length receipts = 1
        \<and> FeeDebit \<notin> receipt_kind ` set receipts"
    by simp
  from out generic stored' show ?thesis
    by (intro conjI)
qed

text \<open>
  C3, as the claim states it, fails in scenario A: the transaction is accepted and the
  batch stored under its hash is the one stake credit of 1000, not two receipts.
\<close>

theorem ExecuteTx_scenario_A_one_receipt:
  "fst (ExecuteTx (spec_chain chain0) (kv_caches chain0) 150 1
          (vote_tx (UidRegID (1, 1)) [vote_on_D Stake 1000]) (scenario_cw 0 0)) = Accepted
   \<and> txReceiptCache
        (snd (ExecuteTx (spec_chain chain0) (kv_caches chain0) 150 1
                (vote_tx (UidRegID (1, 1)) [vote_on_D Stake 1000]) (scenario_cw 0 0)))
        (GetHash chain0 (vote_tx (UidRegID (1, 1)) [vote_on_D Stake 1000]))
       = Some [\<lparr>receipt_account = 4, receipt_kind = StakeCredit, receipt_amount = 1000\<rparr>]"
  by (simp add: example_defs ExecuteTx_defs)


subsection \<open>The vote merge\<close>

lemma existing_weight_merge_vote:
  "existing_weight (merge_vote t k w l) k'
     = (if k' = k then merged_weight t (existing_weight l k) w else existing_weight l k')"
  by (simp add: existing_weight_def merge_vote_def Let_def update_conv' delete_conv')

lemma keys_merge_vote:
  "(k \<in> fst ` set (merge_vote t k w l)) = (merged_weight t (existing_weight l k) w \<noteq> 0)"
  by (simp add: merge_vote_def Let_def dom_update delete_notin_dom)

lemma merged_weight_Stake:
  "uint e + uint w < 2 ^ 64 \<Longrightarrow> uint (merged_weight Stake e w) = uint e + uint w"
  for e w :: uint64
  by (simp add: merged_weight_def uint_add_lem[THEN iffD1])

lemma merged_weight_Unstake: "uint (merged_weight Unstake e w) = max 0 (uint e - uint w)"
  by (simp add: merged_weight_def word_less_def uint_sub_lem[THEN iffD1] max_def)

lemma kv_ProcessDelegateVotes_foldl:
  "kv_ProcessDelegateVotes C cw a votes l height prior = Some (a', l', rs) \<Longrightarrow>
   l' = foldl (\<lambda>l v. merge_vote (candidateVoteType v) (the (resolve_keyid C cw (candidateUid v)))
                      (votedBcoins v) l) l votes"
  by (induction votes arbitrary: l prior) (auto split: option.splits)

text \<open>
  C8: the vote merge. The votes are processed in transaction order, each against the
  list the votes before it left. For one vote on the candidate key \<open>k\<close>, the new
  weight of \<open>k\<close> is the merged weight and every other weight is as before; the entry
  of \<open>k\<close> is in the list exactly when the new weight is not 0. A stake makes the new
  weight the existing weight plus the vote weight (the 64-bit sum, which is the sum
  of the two numbers when that fits in 64 bits), an unstake makes it the maximum of 0
  and the existing weight minus the vote weight.
\<close>

theorem ProcessDelegateVotes_vote_merge:
  "(kv_ProcessDelegateVotes C cw a votes l height prior = Some (a', l', rs) \<longrightarrow>
      l' = foldl (\<lambda>l v. merge_vote (candidateVoteType v) (the (resolve_keyid C cw (candidateUid v)))
                      (votedBcoins v) l) l votes)
   \<and> existing_weight (merge_vote t k w l) k'
       = (if k' = k then merged_weight t (existing_weight l k) w else existing_weight l k')
   \<and> (k \<in> fst ` set (merge_vote t k w l)) = (merged_weight t (existing_weight l k) w \<noteq> 0)
   \<and> merged_weight Stake e w = e + w
   \<and> (uint e + uint w < 2 ^ 64 \<longrightarrow> uint (merged_weight Stake e w) = uint e + uint w)
   \<and> uint (merged_weight Unstake e w) = max 0 (uint e - uint w)"
  using kv_ProcessDelegateVotes_foldl[of C cw a votes l height prior a' l' rs]
  by (simp add: existing_weight_merge_vote keys_merge_vote merged_weight_Unstake
        merged_weight_Stake)
     (simp add: merged_weight_def)

text \<open>S, with 1000 staked on D, stakes 500 more and then unstakes 2000: the entry is removed.\<close>

theorem ProcessDelegateVotes_vote_merge_witness:
  "kv_ProcessDelegateVotes chain0 (scenario_cw 1000 1000) account_S
      [vote_on_D Stake 500, vote_on_D Unstake 2000] [(4, 1000)] 150 []
     = Some (account_S, [],
         [\<lparr>receipt_account = 4, receipt_kind = StakeCredit, receipt_amount = 500\<rparr>,
          \<lparr>receipt_account = 4, receipt_kind = StakeDebit, receipt_amount = 1500\<rparr>])
   \<and> [] = foldl (\<lambda>l v. merge_vote (candidateVoteType v)
                         (the (resolve_keyid chain0 (scenario_cw 1000 1000) (candidateUid v)))
                         (votedBcoins v) l)
             [(4, 1000)] [vote_on_D Stake 500, vote_on_D Unstake 2000]
   \<and> uint (1000 :: uint64) + uint (500 :: uint64) < 2 ^ 64
   \<and> uint (merged_weight Stake 1000 500) = uint (1000 :: uint64) + uint (500 :: uint64)
   \<and> uint (merged_weight Unstake 1500 2000) = max 0 (uint (1500 :: uint64) - uint (2000 :: uint64))"
proof -
  have run: "kv_ProcessDelegateVotes chain0 (scenario_cw 1000 1000) account_S
      [vote_on_D Stake 500, vote_on_D Unstake 2000] [(4, 1000)] 150 []
     = Some (account_S, [],
         [\<lparr>receipt_account = 4, receipt_kind = StakeCredit, receipt_amount = 500\<rparr>,
          \<lparr>receipt_account = 4, receipt_kind = StakeDebit, receipt_amount = 1500\<rparr>])"
    by (simp add: example_defs ExecuteTx_defs)
  have fits: "uint (1000 :: uint64) + uint (500 :: uint64) < 2 ^ 64"
    by simp
  note m1 = ProcessDelegateVotes_vote_merge
         [where C = chain0 and cw = "scenario_cw 1000 1000" and a = account_S
            and votes = "[vote_on_D Stake 500, vote_on_D Unstake 2000]" and l = "[(4, 1000)]"
            and height = 150 and prior = "[]" and a' = account_S and l' = "[]"
            and rs = "[\<lparr>receipt_account = 4, receipt_kind = StakeCredit, receipt_amount = 500\<rparr>,
          \<lparr>receipt_account = 4, receipt_kind = StakeDebit, receipt_amount = 1500\<rparr>]"
            and e = 1000 and w = 500]
  note m2 = ProcessDelegateVotes_vote_merge [where e = 1500 and w = 2000]
  note order = m1[THEN conjunct1, THEN mp, OF run]
  note stake = m1[THEN conjunct2, THEN conjunct2, THEN conjunct2, THEN conjunct2,
                  THEN conjunct1, THEN mp, OF fits]
  note unstake = m2[THEN conjunct2, THEN conjunct2, THEN conjunct2, THEN conjunct2,
                    THEN conjunct2]
  from run order fits stake unstake show ?thesis
    by (intro conjI)
qed

section \<open>ExecuteTx on the key-value stores\<close>

subsection \<open>Well-formed stores and the writes of ExecuteTx\<close>




lemma kv_GetAccount_stored:
  assumes "wf_store cw" "kv_GetAccount C cw uid = Some a"
  shows "resolve_keyid C cw uid = Some (keyid a)" "accountCache cw (keyid a) = Some a"
  using assms by (auto simp: kv_GetAccount_def wf_store_def split: option.splits)



lemma wf_store_delegateVotesCache [simp]:
  "wf_store (cw\<lparr>delegateVotesCache := X\<rparr>) = wf_store cw"
  by (simp add: wf_store_def)



lemma keeps_identity_spec_chain: "keeps_identity (spec_chain C)"
  by (auto simp: keeps_identity_def spec_chain_def spec_OperateBalance_def
      spec_StakeVoteBcoins_def split: BalanceOpType.splits VoteType.splits if_splits)










lemma wf_store_candidateVotesCache [simp]:
  "wf_store (cw\<lparr>candidateVotesCache := X\<rparr>) = wf_store cw"
  by (simp add: wf_store_def)







lemma kv_GetAccount_txReceiptCache [simp]:
  "kv_GetAccount C (cw\<lparr>txReceiptCache := X\<rparr>) uid = kv_GetAccount C cw uid"
  by (cases uid) (simp_all add: kv_GetAccount_def resolve_keyid_def split: option.splits)



subsection \<open>What the check leaves\<close>

text \<open>
  \<^verbatim>\<open>ExecuteTx\<close> is called for a transaction that passed \<^verbatim>\<open>CheckTx\<close>. On a well-formed
  store the key the check collects for a vote is the account key of the candidate, so
  an accepted check has found the sender and every candidate, and the account keys of
  the candidates are pairwise distinct.
\<close>

lemma distinct_map_Some: "distinct xs \<Longrightarrow> distinct (map Some xs)"
  by (simp add: distinct_map)

lemma check_vote_kv_Inr:
  assumes wf: "wf_store cw" and k: "check_vote C (kv_caches C) height cw v = Inr k"
  shows "map_option keyid (kv_GetAccount C cw (candidateUid v)) = Some k"
proof -
  from k obtain a where a: "kv_GetAccount C cw (candidateUid v) = Some a"
    and key: "k = vote_keyid C a v"
    by (auto simp: check_vote_def kv_caches_def split: option.splits if_splits)
  from kv_GetAccount_stored(1)[OF wf a] have "vote_keyid C a v = keyid a"
    by (cases "candidateUid v") (simp_all add: vote_keyid_def resolve_keyid_def)
  with a key show ?thesis by simp
qed

lemma CheckTx_Accepted_candidates:
  assumes wf: "wf_store cw"
    and acc: "CheckTx C (kv_caches C) height tx cw = Accepted"
  shows "(\<exists>src. kv_GetAccount C cw (txUid tx) = Some src)
       \<and> (\<forall>v \<in> set (candidateVotes tx). kv_GetAccount C cw (candidateUid v) \<noteq> None)
       \<and> distinct (candidate_keyids C cw (candidateVotes tx))"
proof -
  let ?S = "kv_caches C"
  let ?keys = "map (\<lambda>v. projr (check_vote C ?S height cw v)) (candidateVotes tx)"
  from acc have sc: "sender_checks C ?S height tx cw = None"
    by (auto simp: CheckTx_def split: option.splits)
  then have src: "\<exists>src. kv_GetAccount C cw (txUid tx) = Some src"
    by (auto simp: sender_checks_def kv_caches_def split: option.splits if_splits)
  from acc sc obtain ids where cv: "check_votes C ?S height cw (candidateVotes tx) {} = Inr ids"
    and card: "card ids = length (candidateVotes tx)"
    by (auto simp: CheckTx_def split: sum.splits if_splits)
  have each: "\<forall>v \<in> set (candidateVotes tx). \<exists>k. check_vote C ?S height cw v = Inr k"
    using check_votes_Inr_all[OF cv] by blast
  from check_votes_Inr_keys[OF each, of "{}"] cv have "ids = set ?keys" by simp
  with card have "card (set ?keys) = length ?keys" by simp
  then have dk: "distinct ?keys" by (rule card_distinct)
  have key: "map_option keyid (kv_GetAccount C cw (candidateUid v))
               = Some (projr (check_vote C ?S height cw v))"
    if "v \<in> set (candidateVotes tx)" for v
  proof -
    from each that obtain k where k: "check_vote C ?S height cw v = Inr k" by blast
    from check_vote_kv_Inr[OF wf k] k show ?thesis by simp
  qed
  have "candidate_keyids C cw (candidateVotes tx) = map Some ?keys"
    unfolding candidate_keyids_def map_map by (rule map_cong[OF refl]) (simp add: key)
  moreover from dk have "distinct (map Some ?keys)"
    by (rule distinct_map_Some)
  ultimately have "distinct (candidate_keyids C cw (candidateVotes tx))"
    by simp
  moreover have "\<forall>v \<in> set (candidateVotes tx). kv_GetAccount C cw (candidateUid v) \<noteq> None"
    using key by fastforce
  ultimately show ?thesis using src by blast
qed

subsection \<open>The delegate index\<close>



end
